theory Spec2Isabelle
  imports Main
begin

section \<open>The seed route of the dashboard: app/seed/route.ts\<close>

text \<open>
  The route handler \<open>GET\<close> checks the environment, probes the database with retries,
  runs the four seed procedures inside the callback of \<open>sql.begin\<close> and answers with
  an HTML page, closing the client in a \<open>finally\<close> block.

  The database server, the database client, the password hashing library and the sample
  data module are not part of the file. They are represented as follows.
  \<^item> The sample data, the hashing function, the outcome of every connectivity probe and
    the failures of the server are the fields of an environment \<open>env\<close>.
  \<^item> The server is a record of four optional tables; a statement either changes it or
    raises. Only key conflicts, unique constraints and missing relations are computed
    from the table contents; any other failure of a statement (a type or length check of
    a column, a lost connection) is given by the environment's \<open>fault\<close> function.
  \<^item> A value of \<open>uuid_generate_v4()\<close> is \<open>Generated n\<close> for the number \<open>n\<close> of
    values drawn before; it differs from every identifier \<open>Given s\<close> written in a
    statement.
  \<^item> A statement issued on the module-level handle takes effect at once; a statement
    issued on the handle of a transaction takes effect when the transaction commits.
    The scheduling of the client's connection pool is not represented: every statement
    issued is taken to reach the server, and every statement other than a probe is
    answered.
  \<^item> Calls of \<open>console.log\<close> and \<open>console.error\<close> are left out.
  \<^item> Strings are byte strings in UTF-8.
\<close>

subsection \<open>Sample data\<close>

record user =
  user_id :: string
  user_name :: string
  user_email :: string
  user_password :: string

record customer =
  customer_id :: string
  customer_name :: string
  customer_email :: string
  customer_image_url :: string

record invoice =
  invoice_customer_id :: string
  invoice_amount :: int
  invoice_status :: string
  invoice_date :: string

record revenue_entry =
  rev_month :: string
  rev_revenue :: int

subsection \<open>Values thrown, probe outcomes\<close>

datatype thrown = Error string | NonError

datatype outcome = Resolved | Rejected thrown | Pending

subsection \<open>The database\<close>

datatype uuid = Given string | Generated nat

record users_row =
  users_id :: uuid
  users_name :: string
  users_email :: string
  users_password :: string

record customers_row =
  customers_id :: uuid
  customers_name :: string
  customers_email :: string
  customers_image_url :: string

record invoices_row =
  invoices_id :: uuid
  invoices_customer_id :: uuid
  invoices_amount :: int
  invoices_status :: string
  invoices_date :: string

record revenue_row =
  revenue_month :: string
  revenue_revenue :: int

record database =
  uuid_ossp :: bool
  users_table :: "users_row list option"
  customers_table :: "customers_row list option"
  invoices_table :: "invoices_row list option"
  revenue_table :: "revenue_row list option"
  uuid_counter :: nat

definition empty_database :: database where
  "empty_database =
     \<lparr>uuid_ossp = False, users_table = None, customers_table = None,
      invoices_table = None, revenue_table = None, uuid_counter = 0\<rparr>"

definition rows_of :: "'a list option \<Rightarrow> 'a list" where
  "rows_of t = (case t of None \<Rightarrow> [] | Some rs \<Rightarrow> rs)"

datatype statement =
    SelectOne
  | CreateExtensionUuidOssp
  | CreateTableUsers
  | CreateTableInvoices
  | CreateTableCustomers
  | CreateTableRevenue
  | InsertUser string string string string
  | InsertInvoice string int string string
  | InsertCustomer string string string string
  | InsertRevenue string int

definition undefined_function :: thrown where
  \<open>undefined_function = Error ''function uuid_generate_v4() does not exist''\<close>

definition undefined_table :: \<open>string \<Rightarrow> thrown\<close> where
  \<open>undefined_table t = Error (''relation "'' @ t @ ''" does not exist'')\<close>

definition unique_violation :: \<open>string \<Rightarrow> thrown\<close> where
  \<open>unique_violation c =
     Error (''duplicate key value violates unique constraint "'' @ c @ ''"'')\<close>

text \<open>
  What the server does with one statement. \<open>CREATE ... IF NOT EXISTS\<close> leaves an existing
  object alone; \<open>ON CONFLICT (c) DO NOTHING\<close> leaves the table alone when a row with the
  same value in column \<open>c\<close> exists. The insert into \<open>invoices\<close> names no \<open>id\<close>, so the
  column takes its default \<open>uuid_generate_v4()\<close>.
\<close>

fun execute :: "statement \<Rightarrow> database \<Rightarrow> thrown + database" where
  "execute SelectOne d = Inr d"
| "execute CreateExtensionUuidOssp d = Inr (d\<lparr>uuid_ossp := True\<rparr>)"
| "execute CreateTableUsers d =
     (case users_table d of
        Some rs \<Rightarrow> Inr d
      | None \<Rightarrow>
          if uuid_ossp d then Inr (d\<lparr>users_table := Some []\<rparr>) else Inl undefined_function)"
| "execute CreateTableInvoices d =
     (case invoices_table d of
        Some rs \<Rightarrow> Inr d
      | None \<Rightarrow>
          if uuid_ossp d then Inr (d\<lparr>invoices_table := Some []\<rparr>) else Inl undefined_function)"
| "execute CreateTableCustomers d =
     (case customers_table d of
        Some rs \<Rightarrow> Inr d
      | None \<Rightarrow>
          if uuid_ossp d then Inr (d\<lparr>customers_table := Some []\<rparr>)
          else Inl undefined_function)"
| "execute CreateTableRevenue d =
     (case revenue_table d of
        Some rs \<Rightarrow> Inr d
      | None \<Rightarrow> Inr (d\<lparr>revenue_table := Some []\<rparr>))"
| "execute (InsertUser i name email password) d =
     (case users_table d of
        None \<Rightarrow> Inl (undefined_table ''users'')
      | Some rs \<Rightarrow>
          if Given i \<in> set (map users_id rs) then Inr d
          else if email \<in> set (map users_email rs)
          then Inl (unique_violation ''users_email_key'')
          else Inr (d\<lparr>users_table := Some (rs @
                 [\<lparr>users_id = Given i, users_name = name, users_email = email,
                   users_password = password\<rparr>])\<rparr>))"
| "execute (InsertInvoice cid amount status date) d =
     (case invoices_table d of
        None \<Rightarrow> Inl (undefined_table ''invoices'')
      | Some rs \<Rightarrow>
          (let i = Generated (uuid_counter d);
               d1 = d\<lparr>uuid_counter := Suc (uuid_counter d)\<rparr>
           in if i \<in> set (map invoices_id rs) then Inr d1
              else Inr (d1\<lparr>invoices_table := Some (rs @
                     [\<lparr>invoices_id = i, invoices_customer_id = Given cid,
                       invoices_amount = amount, invoices_status = status,
                       invoices_date = date\<rparr>])\<rparr>)))"
| "execute (InsertCustomer i name email image_url) d =
     (case customers_table d of
        None \<Rightarrow> Inl (undefined_table ''customers'')
      | Some rs \<Rightarrow>
          if Given i \<in> set (map customers_id rs) then Inr d
          else Inr (d\<lparr>customers_table := Some (rs @
                 [\<lparr>customers_id = Given i, customers_name = name,
                   customers_email = email, customers_image_url = image_url\<rparr>])\<rparr>))"
| "execute (InsertRevenue m r) d =
     (case revenue_table d of
        None \<Rightarrow> Inl (undefined_table ''revenue'')
      | Some rs \<Rightarrow>
          if m \<in> set (map revenue_month rs) then Inr d
          else Inr (d\<lparr>revenue_table := Some (rs @
                 [\<lparr>revenue_month = m, revenue_revenue = r\<rparr>])\<rparr>))"

text \<open>A list of statements run one after the other, stopping at the first that raises.\<close>

fun execute_all :: "statement list \<Rightarrow> database \<Rightarrow> thrown + database" where
  "execute_all [] d = Inr d"
| "execute_all (s # ss) d =
     (case execute s d of Inl err \<Rightarrow> Inl err | Inr d1 \<Rightarrow> execute_all ss d1)"

subsection \<open>The environment and the state of one invocation\<close>

record env =
  POSTGRES_URL :: "string option"
  users :: "user list"
  customers :: "customer list"
  invoices :: "invoice list"
  revenue :: "revenue_entry list"
  bcrypt_hash :: "nat \<Rightarrow> string \<Rightarrow> nat \<Rightarrow> string"
  probe :: "nat \<Rightarrow> outcome"
  fault :: "nat \<Rightarrow> thrown option"

text \<open>
  \<open>bcrypt_hash e k data rounds\<close> is what the \<open>k\<close>-th call \<open>bcrypt.hash(data, rounds)\<close>
  of the invocation resolves to (the library draws a salt for each call);
  \<open>probe e i\<close> is what the probe query of attempt \<open>i\<close> does within the timeout;
  \<open>fault e n\<close> is the error, if any, with which the server answers the call that is the
  \<open>n\<close>-th event of the invocation.
\<close>

datatype handle = Pool | Transaction

datatype event =
    Query handle statement
  | Timer nat
  | Begin
  | Commit
  | Rollback
  | End

record state =
  database :: database
  pending :: "statement list"
  trace :: "event list"

type_synonym 'a promise = "state \<Rightarrow> (thrown + 'a) \<times> state"

definition fresh :: "database \<Rightarrow> state" where
  "fresh d = \<lparr>database = d, pending = [], trace = []\<rparr>"

definition log :: "event \<Rightarrow> state \<Rightarrow> state" where
  "log ev st = st\<lparr>trace := trace st @ [ev]\<rparr>"

definition return_value :: "'a \<Rightarrow> 'a promise" where
  "return_value v st = (Inr v, st)"

definition await :: "'a promise \<Rightarrow> ('a \<Rightarrow> 'b promise) \<Rightarrow> 'b promise" where
  "await p k st =
     (case p st of
        (Inl err, st1) \<Rightarrow> (Inl err, st1)
      | (Inr v, st1) \<Rightarrow> k v st1)"

text \<open>
  \<open>Promise.all\<close> over queries: every query of the list is issued, in the order of the
  list; the result is the list of results, or the first rejection.
\<close>

fun Promise_all :: "'a promise list \<Rightarrow> 'a list promise" where
  "Promise_all [] st = (Inr [], st)"
| "Promise_all (p # ps) st =
     (case p st of
        (r, st1) \<Rightarrow>
          (case Promise_all ps st1 of
             (rs, st2) \<Rightarrow>
               (case r of
                  Inl err \<Rightarrow> (Inl err, st2)
                | Inr v \<Rightarrow>
                    (case rs of
                       Inl err \<Rightarrow> (Inl err, st2)
                     | Inr vs \<Rightarrow> (Inr (v # vs), st2)))))"

subsection \<open>The database client\<close>

definition query :: "env \<Rightarrow> handle \<Rightarrow> statement \<Rightarrow> unit promise" where
  "query e h s st =
     (let st1 = log (Query h s) st in
      case fault e (length (trace st)) of
        Some err \<Rightarrow> (Inl err, st1)
      | None \<Rightarrow>
          (case h of
             Transaction \<Rightarrow> (Inr (), st1\<lparr>pending := pending st1 @ [s]\<rparr>)
           | Pool \<Rightarrow>
               (case execute s (database st1) of
                  Inl err \<Rightarrow> (Inl err, st1)
                | Inr d \<Rightarrow> (Inr (), st1\<lparr>database := d\<rparr>))))"

text \<open>The module-level constant \<open>sql\<close>.\<close>

definition sql :: "env \<Rightarrow> statement \<Rightarrow> unit promise" where
  "sql e = query e Pool"

text \<open>
  \<open>sql.begin(fn)\<close>: opens a transaction, calls \<open>fn\<close> with the handle of the transaction,
  commits when \<open>fn\<close> resolves and rolls back when it rejects.
\<close>

definition sql_begin :: "env \<Rightarrow> (handle \<Rightarrow> 'a promise) \<Rightarrow> 'a promise" where
  "sql_begin e fn st =
     (case fault e (length (trace st)) of
        Some err \<Rightarrow> (Inl err, log Begin st)
      | None \<Rightarrow>
          (case fn Transaction (log Begin (st\<lparr>pending := []\<rparr>)) of
             (Inl err, st1) \<Rightarrow> (Inl err, log Rollback (st1\<lparr>pending := []\<rparr>))
           | (Inr v, st1) \<Rightarrow>
               (case fault e (length (trace st1)) of
                  Some err \<Rightarrow> (Inl err, log Commit (st1\<lparr>pending := []\<rparr>))
                | None \<Rightarrow>
                    (case execute_all (pending st1) (database st1) of
                       Inl err \<Rightarrow> (Inl err, log Commit (st1\<lparr>pending := []\<rparr>))
                     | Inr d \<Rightarrow>
                         (Inr v, log Commit (st1\<lparr>database := d, pending := []\<rparr>))))))"

definition sql_end :: "state \<Rightarrow> state" where
  "sql_end st = log End st"

subsection \<open>withTimeout and testConnection\<close>

definition digit_char :: "nat \<Rightarrow> char" where
  "digit_char n = ''0123456789'' ! n"

function show_nat :: "nat \<Rightarrow> string" where
  "show_nat n = (if n < 10 then [digit_char n] else show_nat (n div 10) @ [digit_char (n mod 10)])"
  by pat_completeness auto
termination
  by (relation "measure id") auto

declare show_nat.simps [simp del]

text \<open>
  \<open>withTimeout(promise, timeoutMs)\<close> races the promise against a timer that rejects.
  The promise is given by what it does before the timer fires.
\<close>

definition withTimeout :: "outcome \<Rightarrow> nat \<Rightarrow> unit promise" where
  "withTimeout promise timeoutMs st =
     (case promise of
        Resolved \<Rightarrow> (Inr (), st)
      | Rejected err \<Rightarrow> (Inl err, st)
      | Pending \<Rightarrow>
          (Inl (Error (''Operation timed out after '' @ show_nat timeoutMs @ ''ms'')),
           log (Timer timeoutMs) st))"

text \<open>The loop of \<open>testConnection\<close>, from the value \<open>i\<close> of its counter.\<close>

function testConnection_loop :: "env \<Rightarrow> nat \<Rightarrow> nat \<Rightarrow> unit promise" where
  "testConnection_loop e maxRetries i st =
     (if i < maxRetries then
        (case withTimeout (probe e i) 15000 (log (Query Pool SelectOne) st) of
           (Inr u, st1) \<Rightarrow> (Inr (), st1)
         | (Inl error, st1) \<Rightarrow>
             if i = maxRetries - 1 then (Inl error, st1)
             else testConnection_loop e maxRetries (i + 1) (log (Timer 3000) st1))
      else (Inr (), st))"
  by pat_completeness auto
termination
  by (relation "measure (\<lambda>(e, maxRetries, i, st). maxRetries - i)") auto

declare testConnection_loop.simps [simp del]

definition testConnection :: "env \<Rightarrow> nat \<Rightarrow> unit promise" where
  "testConnection e maxRetries = testConnection_loop e maxRetries 0"

subsection \<open>The four seed procedures\<close>

definition seedUsers :: "env \<Rightarrow> unit list promise" where
  "seedUsers e =
     await (sql e CreateExtensionUuidOssp) (\<lambda>_.
     await (sql e CreateTableUsers) (\<lambda>_.
     (let hashedPasswords =
            map (\<lambda>(index, user). bcrypt_hash e index (user_password user) 10)
              (enumerate 0 (users e))
      in await
           (Promise_all
              (map (\<lambda>(index, user).
                      sql e (InsertUser (user_id user) (user_name user) (user_email user)
                               (hashedPasswords ! index)))
                 (enumerate 0 (users e))))
           (\<lambda>insertedUsers. return_value insertedUsers))))"

definition seedInvoices :: "env \<Rightarrow> unit list promise" where
  "seedInvoices e =
     await (sql e CreateExtensionUuidOssp) (\<lambda>_.
     await (sql e CreateTableInvoices) (\<lambda>_.
     await
       (Promise_all
          (map (\<lambda>invoice.
                  sql e (InsertInvoice (invoice_customer_id invoice) (invoice_amount invoice)
                           (invoice_status invoice) (invoice_date invoice)))
             (invoices e)))
       (\<lambda>insertedInvoices. return_value insertedInvoices)))"

definition seedCustomers :: "env \<Rightarrow> unit list promise" where
  "seedCustomers e =
     await (sql e CreateExtensionUuidOssp) (\<lambda>_.
     await (sql e CreateTableCustomers) (\<lambda>_.
     await
       (Promise_all
          (map (\<lambda>customer.
                  sql e (InsertCustomer (customer_id customer) (customer_name customer)
                           (customer_email customer) (customer_image_url customer)))
             (customers e)))
       (\<lambda>insertedCustomers. return_value insertedCustomers)))"

definition seedRevenue :: "env \<Rightarrow> unit list promise" where
  "seedRevenue e =
     await (sql e CreateTableRevenue) (\<lambda>_.
     await
       (Promise_all
          (map (\<lambda>rev. sql e (InsertRevenue (rev_month rev) (rev_revenue rev)))
             (revenue e)))
       (\<lambda>insertedRevenue. return_value insertedRevenue))"

subsection \<open>The responses\<close>

record response =
  status :: nat
  headers :: "(string \<times> string) list"
  body :: string

text \<open>A template literal, given by its lines: each line follows a line break.\<close>

definition template :: "string list \<Rightarrow> string" where
  "template ls = concat (map (\<lambda>l. CHR 0x0A # l) ls)"

definition environment_error_page :: \<open>string\<close> where
  \<open>environment_error_page = template
    [''        <!DOCTYPE html>'',
     ''        <html>'',
     ''          <head>'',
     ''            <title>Environment Variable Error</title>'',
     ''            <style>'',
     ''              body { font-family: Arial, sans-serif; padding: 20px; }'',
     ''              .success { color: green; }'',
     ''              .error { color: red; }'',
     ''            </style>'',
     ''          </head>'',
     ''          <body>'',
     ''            <h1 class="error">'' @ [CHR 0xE2, CHR 0x9D, CHR 0x8C] @ '' Environment Variable Error</h1>'',
     ''            <p>POSTGRES_URL environment variable is not set</p>'',
     ''            <p><a href="/dashboard">Go to Dashboard</a></p>'',
     ''          </body>'',
     ''        </html>'',
     ''      '']\<close>

definition connection_error_page :: \<open>string \<Rightarrow> string\<close> where
  \<open>connection_error_page message = template
    [''        <!DOCTYPE html>'',
     ''        <html>'',
     ''          <head>'',
     ''            <title>Database Connection Error</title>'',
     ''            <style>'',
     ''              body { font-family: Arial, sans-serif; padding: 20px; }'',
     ''              .success { color: green; }'',
     ''              .error { color: red; }'',
     ''            </style>'',
     ''          </head>'',
     ''          <body>'',
     ''            <h1 class="error">'' @ [CHR 0xE2, CHR 0x9D, CHR 0x8C] @ '' Database Connection Failed</h1>'',
     ''            <p>Error: '' @ message @ ''</p>'',
     ''            <p><a href="/dashboard">Go to Dashboard</a></p>'',
     ''          </body>'',
     ''        </html>'',
     ''      '']\<close>

definition success_page :: \<open>string\<close> where
  \<open>success_page = template
    [''      <!DOCTYPE html>'',
     ''      <html>'',
     ''        <head>'',
     ''          <title>Database Seeded Successfully</title>'',
     ''          <style>'',
     ''            body { font-family: Arial, sans-serif; padding: 20px; }'',
     ''            .success { color: green; }'',
     ''            .error { color: red; }'',
     ''          </style>'',
     ''        </head>'',
     ''        <body>'',
     ''          <h1 class="success">'' @ [CHR 0xE2, CHR 0x9C, CHR 0x85] @ '' Database Seeded Successfully!</h1>'',
     ''          <p>All tables and data have been created successfully.</p>'',
     ''          <p><a href="/dashboard">Go to Dashboard</a></p>'',
     ''        </body>'',
     ''      </html>'',
     ''    '']\<close>

definition seeding_error_page :: \<open>string \<Rightarrow> string\<close> where
  \<open>seeding_error_page message = template
    [''      <!DOCTYPE html>'',
     ''      <html>'',
     ''        <head>'',
     ''          <title>Database Seeding Error</title>'',
     ''          <style>'',
     ''            body { font-family: Arial, sans-serif; padding: 20px; }'',
     ''            .success { color: green; }'',
     ''            .error { color: red; }'',
     ''          </style>'',
     ''        </head>'',
     ''        <body>'',
     ''          <h1 class="error">'' @ [CHR 0xE2, CHR 0x9D, CHR 0x8C] @ '' Database Seeding Failed</h1>'',
     ''          <p>Error: '' @ message @ ''</p>'',
     ''          <p><a href="/dashboard">Go to Dashboard</a></p>'',
     ''        </body>'',
     ''      </html>'',
     ''    '']\<close>

definition html_headers :: "(string \<times> string) list" where
  "html_headers = [(''Content-Type'', ''text/html'')]"

definition environment_error_response :: response where
  "environment_error_response =
     \<lparr>status = 500, headers = html_headers, body = environment_error_page\<rparr>"

definition connection_error_response :: "thrown \<Rightarrow> response" where
  "connection_error_response connError =
     \<lparr>status = 500, headers = html_headers,
      body = connection_error_page
        (case connError of
           Error message \<Rightarrow> message
         | NonError \<Rightarrow> ''Unknown connection error'')\<rparr>"

definition success_response :: response where
  "success_response = \<lparr>status = 200, headers = html_headers, body = success_page\<rparr>"

definition seeding_error_response :: "thrown \<Rightarrow> response" where
  "seeding_error_response error =
     \<lparr>status = 500, headers = html_headers,
      body = seeding_error_page
        (case error of
           Error message \<Rightarrow> message
         | NonError \<Rightarrow> ''Unknown error'')\<rparr>"

subsection \<open>The handler\<close>

text \<open>The callback given to \<open>sql.begin\<close>; its parameter is the handle of the transaction.\<close>

definition seed_callback ::
  "env \<Rightarrow> handle \<Rightarrow> (unit list \<times> unit list \<times> unit list \<times> unit list) promise" where
  "seed_callback e = (\<lambda>sql.
     await (seedUsers e) (\<lambda>usersResult.
     await (seedCustomers e) (\<lambda>customersResult.
     await (seedInvoices e) (\<lambda>invoicesResult.
     await (seedRevenue e) (\<lambda>revenueResult.
     return_value (usersResult, customersResult, invoicesResult, revenueResult))))))"

text \<open>The \<open>try\<close> block of \<open>GET\<close>: it returns a response or throws.\<close>

definition GET_try :: "env \<Rightarrow> response promise" where
  "GET_try e st =
     (if (case POSTGRES_URL e of None \<Rightarrow> True | Some url \<Rightarrow> url = [])
      then (Inr environment_error_response, st)
      else
        (case testConnection e 3 st of
           (Inl connError, st1) \<Rightarrow> (Inr (connection_error_response connError), st1)
         | (Inr u, st1) \<Rightarrow>
             (case sql_begin e (seed_callback e) st1 of
                (Inl error, st2) \<Rightarrow> (Inl error, st2)
              | (Inr result, st2) \<Rightarrow> (Inr success_response, st2))))"

text \<open>\<open>GET\<close>: the \<open>try\<close> block, the \<open>catch\<close> clause and the \<open>finally\<close> block.\<close>

definition GET :: "env \<Rightarrow> state \<Rightarrow> response \<times> state" where
  "GET e st =
     (case GET_try e st of
        (Inr r, st1) \<Rightarrow> (r, sql_end st1)
      | (Inl error, st1) \<Rightarrow> (seeding_error_response error, sql_end st1))"


subsection \<open>The statements of the four procedures, in the order of issue\<close>

definition users_inserts :: "env \<Rightarrow> statement list" where
  "users_inserts e =
     map (\<lambda>(index, user).
            InsertUser (user_id user) (user_name user) (user_email user)
              (bcrypt_hash e index (user_password user) 10))
       (enumerate 0 (users e))"

definition users_script :: "env \<Rightarrow> statement list" where
  "users_script e = [CreateExtensionUuidOssp, CreateTableUsers] @ users_inserts e"

definition customers_inserts :: "env \<Rightarrow> statement list" where
  "customers_inserts e =
     map (\<lambda>customer.
            InsertCustomer (customer_id customer) (customer_name customer)
              (customer_email customer) (customer_image_url customer))
       (customers e)"

definition customers_script :: "env \<Rightarrow> statement list" where
  "customers_script e = [CreateExtensionUuidOssp, CreateTableCustomers] @ customers_inserts e"

definition invoices_inserts :: "env \<Rightarrow> statement list" where
  "invoices_inserts e =
     map (\<lambda>invoice.
            InsertInvoice (invoice_customer_id invoice) (invoice_amount invoice)
              (invoice_status invoice) (invoice_date invoice))
       (invoices e)"

definition invoices_script :: "env \<Rightarrow> statement list" where
  "invoices_script e = [CreateExtensionUuidOssp, CreateTableInvoices] @ invoices_inserts e"

definition revenue_inserts :: "env \<Rightarrow> statement list" where
  "revenue_inserts e =
     map (\<lambda>rev. InsertRevenue (rev_month rev) (rev_revenue rev)) (revenue e)"

definition revenue_script :: "env \<Rightarrow> statement list" where
  "revenue_script e = [CreateTableRevenue] @ revenue_inserts e"

definition seed_script :: "env \<Rightarrow> statement list" where
  "seed_script e = users_script e @ customers_script e @ invoices_script e @ revenue_script e"


text \<open>A small environment: two records of each kind, a reachable server, no failure.\<close>

definition sample_env :: env where
  "sample_env =
     \<lparr>POSTGRES_URL = Some ''postgres://localhost/dashboard'',
      users =
        [\<lparr>user_id = ''u-1'', user_name = ''Admin'', user_email = ''admin@example.com'',
          user_password = ''123456''\<rparr>,
         \<lparr>user_id = ''u-2'', user_name = ''User'', user_email = ''user@example.com'',
          user_password = ''123456''\<rparr>],
      customers =
        [\<lparr>customer_id = ''c-1'', customer_name = ''Ann'', customer_email = ''ann@example.com'',
          customer_image_url = ''/customers/ann.png''\<rparr>,
         \<lparr>customer_id = ''c-2'', customer_name = ''Bob'', customer_email = ''bob@example.com'',
          customer_image_url = ''/customers/bob.png''\<rparr>],
      invoices =
        [\<lparr>invoice_customer_id = ''c-1'', invoice_amount = 15795, invoice_status = ''pending'',
          invoice_date = ''2022-12-06''\<rparr>,
         \<lparr>invoice_customer_id = ''c-2'', invoice_amount = 20348, invoice_status = ''paid'',
          invoice_date = ''2022-11-14''\<rparr>],
      revenue =
        [\<lparr>rev_month = ''Jan'', rev_revenue = 2000\<rparr>,
         \<lparr>rev_month = ''Feb'', rev_revenue = 1800\<rparr>],
      bcrypt_hash =
        (\<lambda>k data rounds. ''$2b$'' @ show_nat rounds @ ''$'' @ show_nat k @ rev data),
      probe = (\<lambda>i. Resolved),
      fault = (\<lambda>n. None)\<rparr>"







definition sample_statements :: "statement list" where
  "sample_statements =
     [CreateExtensionUuidOssp, CreateTableUsers,
      InsertUser ''u-1'' ''Admin'' ''admin@example.com'' ''$2b$10$0654321'',
      InsertUser ''u-2'' ''User'' ''user@example.com'' ''$2b$10$1654321'',
      CreateExtensionUuidOssp, CreateTableCustomers,
      InsertCustomer ''c-1'' ''Ann'' ''ann@example.com'' ''/customers/ann.png'',
      InsertCustomer ''c-2'' ''Bob'' ''bob@example.com'' ''/customers/bob.png'',
      CreateExtensionUuidOssp, CreateTableInvoices,
      InsertInvoice ''c-1'' 15795 ''pending'' ''2022-12-06'',
      InsertInvoice ''c-2'' 20348 ''paid'' ''2022-11-14'',
      CreateTableRevenue,
      InsertRevenue ''Jan'' 2000,
      InsertRevenue ''Feb'' 1800]"









text \<open>
  \<open>extended_by t t' A\<close>: the table \<open>t'\<close> has the rows of \<open>t\<close>, unchanged and in their
  order, followed by rows of \<open>A\<close>.
\<close>

definition extended_by :: "'a list option \<Rightarrow> 'a list option \<Rightarrow> 'a set \<Rightarrow> bool" where
  "extended_by t t' A = (\<exists>new. rows_of t' = rows_of t @ new \<and> set new \<subseteq> A)"


definition unreachable_env :: env where
  "unreachable_env = sample_env\<lparr>probe := \<lambda>i. Rejected (Error ''<b>connect ECONNREFUSED</b>'')\<rparr>"

definition refusing_env :: env where
  "refusing_env =
     sample_env\<lparr>fault := \<lambda>n. if n = 2 then Some (Error ''<script>alert(1)</script>'') else None\<rparr>"

section \<open>Properties\<close>

subsection \<open>Lemmas\<close>

lemma trace_log [simp]: "trace (log ev st) = trace st @ [ev]"
  by (simp add: log_def)

lemma database_log [simp]: "database (log ev st) = database st"
  by (simp add: log_def)

lemma pending_log [simp]: "pending (log ev st) = pending st"
  by (simp add: log_def)







lemma trace_Promise_all:
  "trace (snd (Promise_all (map (sql e) ss) st)) = trace st @ map (Query Pool) ss"
proof (induction ss arbitrary: st)
  case Nil
  show ?case by simp
next
  case (Cons s ss)
  obtain r st1 where q: "sql e s st = (r, st1)" by (cases "sql e s st")
  have t1: "trace st1 = trace st @ [Query Pool s]"
    using q by (auto simp: sql_def query_def Let_def split: option.splits sum.splits)
  show ?case using Cons.IH[of st1] q t1 by (auto split: prod.splits sum.splits)
qed

















lemma status_responses [simp]:
  "status environment_error_response = 500"
  "status (connection_error_response err) = 500"
  "status (seeding_error_response err) = 500"
  "status success_response = 200"
  by (simp_all add: environment_error_response_def connection_error_response_def
      seeding_error_response_def success_response_def)

















lemma sample_script: "seed_script sample_env = sample_statements"
  by code_simp












lemma extended_by_refl [simp]: "extended_by t t A"
  by (simp add: extended_by_def)

lemma extended_by_create [simp]: "extended_by None (Some []) A"
  by (simp add: extended_by_def rows_of_def)







lemma connection_error_page_split:
  "connection_error_page message =
     take 422 (connection_error_page []) @ message @ drop 422 (connection_error_page [])"
  by (simp add: connection_error_page_def template_def)

lemma seeding_error_page_split:
  "seeding_error_page message =
     take 390 (seeding_error_page []) @ message @ drop 390 (seeding_error_page [])"
  by (simp add: seeding_error_page_def template_def)

lemma unreachable_testConnection:
  "testConnection unreachable_env 3 (fresh empty_database) =
     (Inl (Error ''<b>connect ECONNREFUSED</b>''),
      \<lparr>database = empty_database, pending = [],
       trace = [Query Pool SelectOne, Timer 3000, Query Pool SelectOne, Timer 3000,
                Query Pool SelectOne]\<rparr>)"
  by code_simp

lemma refusing_testConnection:
  "testConnection refusing_env 3 (fresh empty_database) =
     (Inr (), \<lparr>database = empty_database, pending = [], trace = [Query Pool SelectOne]\<rparr>)"
  by code_simp

lemma refusing_sql_begin:
  "sql_begin refusing_env (seed_callback refusing_env)
       \<lparr>database = empty_database, pending = [], trace = [Query Pool SelectOne]\<rparr> =
     (Inl (Error ''<script>alert(1)</script>''),
      \<lparr>database = empty_database, pending = [],
       trace = [Query Pool SelectOne, Begin, Query Pool CreateExtensionUuidOssp, Rollback]\<rparr>)"
  by code_simp





section \<open>The claims\<close>








text \<open>
  Claim C5. When \<open>POSTGRES_URL\<close> is absent, the handler answers with the
  missing-configuration page and status 500; it issues no query, opens no transaction and
  leaves the database as it was. The only call on the client is the \<open>sql.end()\<close> of
  the \<open>finally\<close> block.
\<close>

theorem missing_url_short_circuits:
  assumes "POSTGRES_URL e = None"
  shows "fst (GET e st) = environment_error_response \<and>
         status (fst (GET e st)) = 500 \<and>
         body (fst (GET e st)) = environment_error_page \<and>
         trace (snd (GET e st)) = trace st @ [End] \<and>
         database (snd (GET e st)) = database st"
  using assms
  by (simp add: GET_def GET_try_def sql_end_def environment_error_response_def)

theorem missing_url_short_circuits_witness:
  "POSTGRES_URL (sample_env\<lparr>POSTGRES_URL := None\<rparr>) = None \<and>
   status (fst (GET (sample_env\<lparr>POSTGRES_URL := None\<rparr>) (fresh empty_database))) = 500 \<and>
   trace (snd (GET (sample_env\<lparr>POSTGRES_URL := None\<rparr>) (fresh empty_database))) = [End] \<and>
   database (snd (GET (sample_env\<lparr>POSTGRES_URL := None\<rparr>) (fresh empty_database))) =
     empty_database"
  using missing_url_short_circuits
    [of "sample_env\<lparr>POSTGRES_URL := None\<rparr>" "fresh empty_database"]
  by (simp add: fresh_def)









text \<open>
  Claim C10. In the connection-error page and in the seeding-error page the message of
  the error thrown stands as it is, between \<open><p>Error: \<close> and \<open></p>\<close>: the body is the
  page for the empty message with the message inserted at a fixed offset, whatever
  characters the message has.
\<close>

theorem error_message_interpolated:
  assumes "POSTGRES_URL e = Some url" and "url \<noteq> []"
  shows "(testConnection e 3 st = (Inl (Error message), st1) \<longrightarrow>
            body (fst (GET e st)) =
              take 422 (connection_error_page []) @ message @
              drop 422 (connection_error_page [])) \<and>
         (testConnection e 3 st = (Inr u, st1) \<and>
          sql_begin e (seed_callback e) st1 = (Inl (Error message), st2) \<longrightarrow>
            body (fst (GET e st)) =
              take 390 (seeding_error_page []) @ message @ drop 390 (seeding_error_page []))"
proof (intro conjI impI)
  assume "testConnection e 3 st = (Inl (Error message), st1)"
  with assms have "body (fst (GET e st)) = connection_error_page message"
    by (simp add: GET_def GET_try_def connection_error_response_def)
  then show "body (fst (GET e st)) =
      take 422 (connection_error_page []) @ message @ drop 422 (connection_error_page [])"
    by (simp only: connection_error_page_split[of message])
next
  assume "testConnection e 3 st = (Inr u, st1) \<and>
          sql_begin e (seed_callback e) st1 = (Inl (Error message), st2)"
  with assms have "body (fst (GET e st)) = seeding_error_page message"
    by (simp add: GET_def GET_try_def seeding_error_response_def)
  then show "body (fst (GET e st)) =
      take 390 (seeding_error_page []) @ message @ drop 390 (seeding_error_page [])"
    by (simp only: seeding_error_page_split[of message])
qed

theorem error_message_interpolated_witness:
  "POSTGRES_URL unreachable_env = Some ''postgres://localhost/dashboard'' \<and>
   fst (testConnection unreachable_env 3 (fresh empty_database)) =
     Inl (Error ''<b>connect ECONNREFUSED</b>'') \<and>
   body (fst (GET unreachable_env (fresh empty_database))) =
     take 422 (connection_error_page []) @ ''<b>connect ECONNREFUSED</b>'' @
     drop 422 (connection_error_page []) \<and>
   POSTGRES_URL refusing_env = Some ''postgres://localhost/dashboard'' \<and>
   fst (testConnection refusing_env 3 (fresh empty_database)) = Inr () \<and>
   fst (sql_begin refusing_env (seed_callback refusing_env)
          (snd (testConnection refusing_env 3 (fresh empty_database)))) =
     Inl (Error ''<script>alert(1)</script>'') \<and>
   body (fst (GET refusing_env (fresh empty_database))) =
     take 390 (seeding_error_page []) @ ''<script>alert(1)</script>'' @
     drop 390 (seeding_error_page []) \<and>
   drop 412 (take 422 (connection_error_page [])) = ''<p>Error: '' \<and>
   take 4 (drop 422 (connection_error_page [])) = ''</p>'' \<and>
   drop 380 (take 390 (seeding_error_page [])) = ''<p>Error: '' \<and>
   take 4 (drop 390 (seeding_error_page [])) = ''</p>''"
proof -
  have url: "POSTGRES_URL unreachable_env = Some ''postgres://localhost/dashboard''"
    "POSTGRES_URL refusing_env = Some ''postgres://localhost/dashboard''"
    "(''postgres://localhost/dashboard'' :: string) \<noteq> []"
    by (simp_all add: unreachable_env_def refusing_env_def sample_env_def)
  note a = error_message_interpolated[OF url(1) url(3),
      of "fresh empty_database" "''<b>connect ECONNREFUSED</b>''", THEN conjunct1, rule_format,
      OF unreachable_testConnection]
  note b = error_message_interpolated[OF url(2) url(3),
      of "fresh empty_database" _ _ "()", THEN conjunct2, rule_format,
      OF conjI[OF refusing_testConnection refusing_sql_begin]]
  have pages: "drop 412 (take 422 (connection_error_page [])) = ''<p>Error: ''"
    "take 4 (drop 422 (connection_error_page [])) = ''</p>''"
    "drop 380 (take 390 (seeding_error_page [])) = ''<p>Error: ''"
    "take 4 (drop 390 (seeding_error_page [])) = ''</p>''"
    by (simp_all add: connection_error_page_def seeding_error_page_def template_def)
  show ?thesis
    using a b url pages
    by (simp add: unreachable_testConnection refusing_testConnection refusing_sql_begin)
qed

end
